theory Spec2Isabelle
  imports Main
begin

section \<open>Data model of \<open>src/data_prep.py\<close>\<close>

text \<open>
  The pipeline is load \<open>\<rightarrow>\<close> flatten \<open>\<rightarrow>\<close> aggregate. A session record is the dict
  \<open>{"session": int, "events": [{aid, ts, type}, ...]}\<close> of the docstring of
  \<open>load_sessions\<close>; identifiers and timestamps are Python integers. The value under
  \<open>"type"\<close> is a string or the JSON \<open>null\<close>, which \<open>json.loads\<close> gives as Python's
  \<open>None\<close> and pandas treats as a missing cell: \<open>None\<close> here.
\<close>

record event =
  aid :: int
  ts :: int
  type :: "string option"

record session_record =
  session :: int
  events :: "event list"

text \<open>
  One row of the event table: the dict \<open>{"session": sid, "aid": .., "ts": .., "type": ..}\<close>
  that \<open>flatten_events\<close> appends. The columns carry the prefix \<open>row_\<close> because the
  keys of the nested records already use the plain names.
\<close>

record event_row =
  row_session :: int
  row_aid :: int
  row_ts :: int
  row_type :: "string option"

text \<open>
  The event table. \<open>pd.DataFrame(rows)\<close> takes its columns from the keys of the row
  dicts, so a frame built from the empty list has no columns at all (\<open>NoColumns\<close>);
  every other event table has the four columns and any number of rows.
\<close>

datatype event_df = NoColumns | Frame "event_row list"

fun df_columns :: "event_df \<Rightarrow> string list" where
  "df_columns NoColumns = []"
| "df_columns (Frame rs) = [''session'', ''aid'', ''ts'', ''type'']"

fun df_rows :: "event_df \<Rightarrow> event_row list" where
  "df_rows NoColumns = []"
| "df_rows (Frame rs) = rs"

definition DataFrame :: "event_row list \<Rightarrow> event_df" where
  "DataFrame rs = (if rs = [] then NoColumns else Frame rs)"

text \<open>\<open>DataFrame.empty\<close>: true when any axis of the frame has length 0.\<close>

definition df_empty :: "event_df \<Rightarrow> bool" where
  "df_empty df \<longleftrightarrow> length (df_rows df) = 0 \<or> length (df_columns df) = 0"

text \<open>
  The session feature table: a frame indexed by session identifier. The aggregation
  produces the four counters; the assignment of \<open>converted\<close> adds the fifth column.
\<close>

record agg_row =
  total_events :: nat
  click_cnt :: nat
  cart_cnt :: nat
  order_cnt :: nat

record feature_row = agg_row +
  converted :: bool

record 'r indexed_df =
  columns :: "string list"
  rows :: "(int \<times> 'r) list"

datatype error =
    OSError
  | UnicodeDecodeError
  | JSONDecodeError
  | ValueError string

section \<open>\<open>load_sessions\<close>\<close>

text \<open>
  The file object that \<open>path.open("r", encoding="utf-8")\<close> returns is the list of the
  results of its successive reads of a next line: the decoded line, or the
  \<open>UnicodeDecodeError\<close> that the read raises when the bytes it decodes are not UTF-8. The
  library decodes a whole buffer at a time, so the read that fails can be one for a line
  before the undecodable bytes: a short file with a valid first line and an undecodable
  byte in its second line is the list \<open>[DecodeFails]\<close>, since its first read already
  decodes both lines. Nothing is read after a failed read. A file that is readable as text
  has only \<open>Line\<close> results.
\<close>

datatype line_read = Line string | DecodeFails

text \<open>
  The file system is a partial map from paths to file objects; \<open>None\<close> is a path that
  \<open>path.open\<close> cannot open. \<open>json.loads\<close> is the library's parser, taken as the
  parameter \<open>loads\<close>: \<open>None\<close> is the parse error it raises.
  The loop \<open>for i, line in enumerate(f)\<close> carries the index \<open>i\<close> and the list
  \<open>sessions\<close> built so far. Each turn first reads the next line from the file and only
  then tests \<open>i >= n\<close>, so the line after the last one parsed is read as well.
\<close>

fun load_loop :: "(string \<Rightarrow> 'j option) \<Rightarrow> int \<Rightarrow> int \<Rightarrow> line_read list \<Rightarrow> 'j list \<Rightarrow> error + 'j list" where
  "load_loop loads n i [] sessions = Inr sessions"
| "load_loop loads n i (DecodeFails # f) sessions = Inl UnicodeDecodeError"
| "load_loop loads n i (Line line # f) sessions =
     (if i \<ge> n then Inr sessions
      else case loads line of
             None \<Rightarrow> Inl JSONDecodeError
           | Some s \<Rightarrow> load_loop loads n (i + 1) f (sessions @ [s]))"

definition load_sessions :: "(string \<Rightarrow> 'j option) \<Rightarrow> (string \<rightharpoonup> line_read list) \<Rightarrow> string \<Rightarrow> int \<Rightarrow> error + 'j list" where
  "load_sessions loads fs path n =
     (case fs path of
        None \<Rightarrow> Inl OSError
      | Some f \<Rightarrow> load_loop loads n 0 f [])"

section \<open>\<open>flatten_events\<close>\<close>

text \<open>The inner loop \<open>for e in s["events"]\<close> and the outer loop \<open>for s in sessions\<close>,
  both appending to \<open>rows\<close>.\<close>

fun flatten_session :: "int \<Rightarrow> event list \<Rightarrow> event_row list \<Rightarrow> event_row list" where
  "flatten_session sid [] rs = rs"
| "flatten_session sid (e # es) rs =
     flatten_session sid es
       (rs @ [\<lparr>row_session = sid, row_aid = aid e, row_ts = ts e, row_type = type e\<rparr>])"

fun flatten_loop :: "session_record list \<Rightarrow> event_row list \<Rightarrow> event_row list" where
  "flatten_loop [] rs = rs"
| "flatten_loop (s # ss) rs = flatten_loop ss (flatten_session (session s) (events s) rs)"

definition flatten_events :: "session_record list \<Rightarrow> event_df" where
  "flatten_events sessions = DataFrame (flatten_loop sessions [])"

section \<open>\<open>build_session_features\<close>\<close>

text \<open>
  \<open>event_df.groupby("session")\<close>: one group per distinct key, the groups in ascending
  key order (\<open>sort=True\<close> is the default), each group holding its rows in table order.
\<close>

definition groupby_session :: "event_df \<Rightarrow> (int \<times> event_row list) list" where
  "groupby_session df =
     map (\<lambda>k. (k, filter (\<lambda>r. row_session r = k) (df_rows df)))
       (sort (remdups (map row_session (df_rows df))))"

text \<open>
  The aggregation functions, applied to the \<open>type\<close> column of a group: \<open>"count"\<close>
  counts the cells that are not missing, and \<open>lambda x: (x == v).sum()\<close> adds up the
  booleans of the comparison of each cell with the string \<open>v\<close>, which is false on a
  missing cell.
\<close>

definition count_agg :: "string option list \<Rightarrow> nat" where
  "count_agg x = length (filter (\<lambda>t. t \<noteq> None) x)"

definition eq_sum :: "string \<Rightarrow> string option list \<Rightarrow> nat" where
  "eq_sum v x = sum_list (map (\<lambda>t. if t = Some v then 1 else 0) x)"

definition agg :: "(int \<times> event_row list) list \<Rightarrow> agg_row indexed_df" where
  "agg groups =
     \<lparr>columns = [''total_events'', ''click_cnt'', ''cart_cnt'', ''order_cnt''],
      rows = map (\<lambda>(k, g).
               (k, \<lparr>total_events = count_agg (map row_type g),
                    click_cnt = eq_sum ''clicks'' (map row_type g),
                    cart_cnt = eq_sum ''carts'' (map row_type g),
                    order_cnt = eq_sum ''orders'' (map row_type g)\<rparr>)) groups\<rparr>"

text \<open>\<open>session_features["converted"] = session_features["order_cnt"] > 0\<close>: a new
  column, appended after the existing ones.\<close>

definition set_converted :: "agg_row indexed_df \<Rightarrow> feature_row indexed_df" where
  "set_converted sf =
     \<lparr>columns = columns sf @ [''converted''],
      rows = map (\<lambda>(k, r).
               (k, \<lparr>total_events = total_events r, click_cnt = click_cnt r,
                    cart_cnt = cart_cnt r, order_cnt = order_cnt r,
                    converted = (order_cnt r > 0)\<rparr>)) (rows sf)\<rparr>"

definition empty_msg :: string where
  "empty_msg = ''event_df is empty. Check input sessions or file path.''"

definition build_session_features :: "event_df \<Rightarrow> error + feature_row indexed_df" where
  "build_session_features df =
     (if df_empty df then Inl (ValueError empty_msg)
      else Inr (set_converted (agg (groupby_session df))))"

section \<open>The concrete scenario\<close>

definition scenario_sessions :: "session_record list" where
  "scenario_sessions =
     [\<lparr>session = 1, events = [\<lparr>aid = 10, ts = 100, type = Some ''clicks''\<rparr>,
                              \<lparr>aid = 11, ts = 101, type = Some ''orders''\<rparr>]\<rparr>,
      \<lparr>session = 2, events = [\<lparr>aid = 12, ts = 102, type = Some ''carts''\<rparr>]\<rparr>]"

text \<open>
  C1. On the two sessions of the scenario, \<open>build_session_features (flatten_events sessions)\<close>
  succeeds with the row of session 1 holding total_events 2, click_cnt 1, cart_cnt 0,
  order_cnt 1, converted true and the row of session 2 holding total_events 1, click_cnt 0,
  cart_cnt 1, order_cnt 0, converted false.
\<close>

theorem scenario_features:
  "build_session_features (flatten_events scenario_sessions) =
     Inr \<lparr>columns = [''total_events'', ''click_cnt'', ''cart_cnt'', ''order_cnt'', ''converted''],
          rows = [(1, \<lparr>total_events = 2, click_cnt = 1, cart_cnt = 0, order_cnt = 1,
                        converted = True\<rparr>),
                  (2, \<lparr>total_events = 1, click_cnt = 0, cart_cnt = 1, order_cnt = 0,
                        converted = False\<rparr>)]\<rparr>"
  by (simp add: build_session_features_def flatten_events_def scenario_sessions_def
      DataFrame_def df_empty_def groupby_session_def agg_def set_converted_def
      count_agg_def eq_sum_def)

section \<open>Auxiliary facts\<close>

lemma load_loop_text:
  "load_loop loads n i (map Line f) acc =
     (if \<forall>l \<in> set (take (nat (n - i)) f). loads l \<noteq> None
      then Inr (acc @ map (\<lambda>l. the (loads l)) (take (nat (n - i)) f))
      else Inl JSONDecodeError)"
proof (induction f arbitrary: i acc)
  case Nil
  show ?case by simp
next
  case (Cons line f)
  show ?case
  proof (cases "i \<ge> n")
    case True
    then show ?thesis by simp
  next
    case False
    then have step: "nat (n - i) = Suc (nat (n - (i + 1)))" by simp
    show ?thesis
    proof (cases "loads line")
      case None
      with False step show ?thesis by simp
    next
      case (Some s)
      with False step show ?thesis by (simp add: Cons.IH)
    qed
  qed
qed

lemma load_loop_stop:
  "n \<le> i \<Longrightarrow> take 1 f \<noteq> [DecodeFails] \<Longrightarrow> load_loop loads n i f acc = Inr acc"
  by (cases "(loads, n, i, f, acc)" rule: load_loop.cases) simp_all

lemma load_loop_prefix:
  "int (length pre) = n - i \<Longrightarrow> \<forall>l \<in> set pre. loads l = Some (g l) \<Longrightarrow>
   take 1 rest \<noteq> [DecodeFails] \<Longrightarrow>
   load_loop loads n i (map Line pre @ rest) acc = Inr (acc @ map g pre)"
proof (induction pre arbitrary: i acc)
  case Nil
  then show ?case by (simp add: load_loop_stop)
next
  case (Cons l pre)
  from Cons.prems(1) have "\<not> n \<le> i" and "int (length pre) = n - (i + 1)" by simp_all
  with Cons.prems(2,3) Cons.IH [of "i + 1" "acc @ [g l]"] show ?case by simp
qed

lemma load_loop_abort:
  "\<exists>x \<in> set (take (nat (n - i)) f). x = DecodeFails \<or> (\<exists>l. x = Line l \<and> loads l = None) \<Longrightarrow>
   \<exists>e. load_loop loads n i f acc = Inl e"
proof (induction loads n i f acc rule: load_loop.induct)
  case (1 loads n i sessions)
  then show ?case by simp
next
  case (2 loads n i f sessions)
  then show ?case by simp
next
  case (3 loads n i line f sessions)
  show ?case
  proof (cases "i \<ge> n")
    case True
    with "3.prems" show ?thesis by simp
  next
    case False
    then have step: "nat (n - i) = Suc (nat (n - (i + 1)))" by simp
    show ?thesis
    proof (cases "loads line")
      case None
      with False show ?thesis by simp
    next
      case (Some s)
      with "3.prems" step
      have "\<exists>x \<in> set (take (nat (n - (i + 1))) f).
              x = DecodeFails \<or> (\<exists>l. x = Line l \<and> loads l = None)"
        by auto
      with "3.IH" [OF False Some] False Some show ?thesis by simp
    qed
  qed
qed

lemma load_loop_cong:
  "take (nat (n - i) + 1) f = take (nat (n - i) + 1) f' \<Longrightarrow>
   \<forall>l. Line l \<in> set (take (nat (n - i)) f) \<longrightarrow> loads l = loads' l \<Longrightarrow>
   load_loop loads n i f acc = load_loop loads' n i f' acc"
proof (induction f arbitrary: f' i acc)
  case Nil
  then have "f' = []" by simp
  then show ?case by simp
next
  case (Cons x f)
  from Cons.prems(1) obtain f'' where f': "f' = x # f''"
    and t: "take (nat (n - i)) f = take (nat (n - i)) f''"
    by (cases f') simp_all
  show ?case
  proof (cases x)
    case DecodeFails
    with f' show ?thesis by simp
  next
    case (Line l)
    show ?thesis
    proof (cases "i \<ge> n")
      case True
      with f' Line show ?thesis by simp
    next
      case False
      then have step: "nat (n - i) = Suc (nat (n - (i + 1)))" by simp
      from Cons.prems(2) Line step have eq: "loads l = loads' l" by simp
      have t': "take (nat (n - (i + 1)) + 1) f = take (nat (n - (i + 1)) + 1) f''"
        using t step by simp
      have a: "\<forall>l. Line l \<in> set (take (nat (n - (i + 1))) f) \<longrightarrow> loads l = loads' l"
        using Cons.prems(2) step by simp
      show ?thesis
      proof (cases "loads l")
        case None
        then have "loads' l = None" using eq by simp
        with None f' Line False show ?thesis by simp
      next
        case (Some s)
        then have "loads' l = Some s" using eq by simp
        with Some f' Line False Cons.IH [OF t' a, of "acc @ [s]"] show ?thesis by simp
      qed
    qed
  qed
qed

lemma load_sessions_text:
  "fs path = Some (map Line f) \<Longrightarrow>
   load_sessions loads fs path n =
     (if \<forall>l \<in> set (take (nat n) f). loads l \<noteq> None
      then Inr (map (\<lambda>l. the (loads l)) (take (nat n) f))
      else Inl JSONDecodeError)"
  by (simp add: load_sessions_def load_loop_text)

lemma map_Some_the:
  "\<forall>x \<in> set xs. g x \<noteq> None \<Longrightarrow> map Some (map (\<lambda>l. the (g l)) xs) = map g xs"
  by (induction xs) auto

lemma flatten_session_eq:
  "flatten_session sid es rs =
     rs @ map (\<lambda>e. \<lparr>row_session = sid, row_aid = aid e, row_ts = ts e, row_type = type e\<rparr>) es"
  by (induction es arbitrary: rs) simp_all

lemma flatten_loop_eq:
  "flatten_loop ss rs =
     rs @ concat (map (\<lambda>s. map (\<lambda>e. \<lparr>row_session = session s, row_aid = aid e,
                                      row_ts = ts e, row_type = type e\<rparr>) (events s)) ss)"
  by (induction ss arbitrary: rs) (simp_all add: flatten_session_eq)

lemma df_empty_iff: "df_empty df \<longleftrightarrow> df_rows df = []"
  by (cases df) (simp_all add: df_empty_def)

lemma df_rows_DataFrame: "df_rows (DataFrame rs) = rs"
  by (simp add: DataFrame_def)

lemma eq_sum_filter: "eq_sum v x = length (filter (\<lambda>t. t = Some v) x)"
  by (induction x) (simp_all add: eq_sum_def)

lemma index_features:
  "map fst (rows (set_converted (agg (groupby_session df)))) =
     sort (remdups (map row_session (df_rows df)))"
  by (simp add: set_converted_def agg_def groupby_session_def comp_def)

lemma row_features:
  assumes "(k, r) \<in> set (rows (set_converted (agg (groupby_session df))))"
  shows "k \<in> row_session ` set (df_rows df)"
    and "total_events r = length (filter (\<lambda>e. row_session e = k \<and> row_type e \<noteq> None) (df_rows df))"
    and "click_cnt r = length (filter (\<lambda>e. row_session e = k \<and> row_type e = Some ''clicks'') (df_rows df))"
    and "cart_cnt r = length (filter (\<lambda>e. row_session e = k \<and> row_type e = Some ''carts'') (df_rows df))"
    and "order_cnt r = length (filter (\<lambda>e. row_session e = k \<and> row_type e = Some ''orders'') (df_rows df))"
    and "converted r \<longleftrightarrow> order_cnt r > 0"
  using assms
  by (auto simp: set_converted_def agg_def groupby_session_def count_agg_def eq_sum_filter
      filter_map comp_def conj_commute)

lemma bsf_Inr_iff:
  "build_session_features df = Inr t \<longleftrightarrow>
     df_rows df \<noteq> [] \<and> t = set_converted (agg (groupby_session df))"
  by (auto simp: build_session_features_def df_empty_iff)

lemma bsf_Inl_iff:
  "build_session_features df = Inl e \<longleftrightarrow> df_rows df = [] \<and> e = ValueError empty_msg"
  by (auto simp: build_session_features_def df_empty_iff)


section \<open>The session loader\<close>

text \<open>
  C5, as stated, fails on a file that is readable as text with a malformed line among the
  first \<open>n\<close>: with \<open>n = 2\<close> and the second of three lines malformed, the load raises the
  parse error and returns no sequence. The parser of the example is the table that accepts
  the lines \<open>1\<close> and \<open>2\<close> and rejects every other line.
\<close>

theorem load_sessions_malformed:
  "load_sessions [''1'' \<mapsto> (1::int), ''2'' \<mapsto> 2]
     [''train.jsonl'' \<mapsto> [Line ''1'', Line ''x'', Line ''2'']] ''train.jsonl'' 2
   = Inl JSONDecodeError"
  by (simp add: load_sessions_def)

text \<open>
  C5, amended. For every file that is readable as text, every \<open>n \<ge> 0\<close> and every parser
  that accepts each of the first \<open>min(n, L)\<close> lines of the file, \<open>load_sessions\<close> returns
  a sequence of length \<open>min(n, L)\<close> that holds the parses of the first \<open>min(n, L)\<close>
  lines in file order; it never holds more than \<open>n\<close> records.
\<close>

theorem load_sessions_prefix:
  assumes "fs path = Some (map Line f)" and "0 \<le> n"
    and "\<forall>l \<in> set (take (nat n) f). loads l \<noteq> None"
  shows "\<exists>rs. load_sessions loads fs path n = Inr rs
           \<and> length rs = min (nat n) (length f)
           \<and> map Some rs = map loads (take (min (nat n) (length f)) f)
           \<and> int (length rs) \<le> n"
proof -
  let ?rs = "map (\<lambda>l. the (loads l)) (take (nat n) f)"
  have "load_sessions loads fs path n = Inr ?rs"
    using assms(1,3) by (simp add: load_sessions_text)
  moreover have "length ?rs = min (nat n) (length f)"
    by (simp add: min.commute)
  moreover have "take (min (nat n) (length f)) f = take (nat n) f"
    by (simp add: min_def)
  then have "map Some ?rs = map loads (take (min (nat n) (length f)) f)"
    using map_Some_the [OF assms(3)] by simp
  moreover have "int (length ?rs) \<le> n"
    using assms(2) by simp
  ultimately show ?thesis by blast
qed

theorem load_sessions_prefix_witness:
  "[''train.jsonl'' \<mapsto> map Line [''1'', ''2'', ''x'', ''1'', ''2'']] ''train.jsonl''
      = Some (map Line [''1'', ''2'', ''x'', ''1'', ''2''])
   \<and> (0::int) \<le> 2
   \<and> take (nat 2) [''1'', ''2'', ''x'', ''1'', ''2''] = [''1'', ''2'']
   \<and> [''1'' \<mapsto> (1::int), ''2'' \<mapsto> 2] ''1'' = Some 1
   \<and> [''1'' \<mapsto> (1::int), ''2'' \<mapsto> 2] ''2'' = Some 2
   \<and> (\<exists>rs. load_sessions [''1'' \<mapsto> (1::int), ''2'' \<mapsto> 2]
               [''train.jsonl'' \<mapsto> map Line [''1'', ''2'', ''x'', ''1'', ''2'']] ''train.jsonl'' 2
             = Inr rs
          \<and> length rs = 2 \<and> rs = [1, 2])"
proof -
  have a: "[''train.jsonl'' \<mapsto> map Line [''1'', ''2'', ''x'', ''1'', ''2'']] ''train.jsonl''
      = Some (map Line [''1'', ''2'', ''x'', ''1'', ''2''])" by simp
  have b: "(0::int) \<le> 2" by simp
  have t: "take (nat 2) [''1'', ''2'', ''x'', ''1'', ''2''] = [''1'', ''2'']"
    by (simp add: numeral_2_eq_2)
  have c: "\<forall>l \<in> set (take (nat 2) [''1'', ''2'', ''x'', ''1'', ''2'']).
         [''1'' \<mapsto> (1::int), ''2'' \<mapsto> 2] l \<noteq> None"
    unfolding t by simp
  from load_sessions_prefix [of "[''train.jsonl'' \<mapsto> map Line [''1'', ''2'', ''x'', ''1'', ''2'']]"
      "''train.jsonl''" "[''1'', ''2'', ''x'', ''1'', ''2'']" 2 "[''1'' \<mapsto> (1::int), ''2'' \<mapsto> 2]", OF a b c]
  obtain rs where
    r: "load_sessions [''1'' \<mapsto> (1::int), ''2'' \<mapsto> 2]
               [''train.jsonl'' \<mapsto> map Line [''1'', ''2'', ''x'', ''1'', ''2'']] ''train.jsonl'' 2 = Inr rs"
    and l: "length rs = min (nat 2) (length [''1'', ''2'', ''x'', ''1'', ''2''])"
    and m: "map Some rs = map [''1'' \<mapsto> (1::int), ''2'' \<mapsto> 2]
              (take (min (nat 2) (length [''1'', ''2'', ''x'', ''1'', ''2''])) [''1'', ''2'', ''x'', ''1'', ''2''])"
    by blast
  have l2: "length rs = 2" using l by simp
  have "map Some rs = [Some 1, Some 2]" using m by (simp add: numeral_2_eq_2)
  then have "rs = [1, 2]" by (auto simp: map_eq_Cons_conv)
  moreover have "[''1'' \<mapsto> (1::int), ''2'' \<mapsto> 2] ''1'' = Some 1"
    and "[''1'' \<mapsto> (1::int), ''2'' \<mapsto> 2] ''2'' = Some 2"
    by simp_all
  ultimately show ?thesis using a b t r l2 by blast
qed

text \<open>
  C8. \<open>load_sessions\<close> fails with the IO error when the path cannot be opened, and with
  the parse error when some line among the first \<open>n\<close> that exist in a text file is
  malformed. Whatever the file holds, a line among the first \<open>n\<close> that is malformed or
  does not decode aborts the load: the result is an error alone, with no records.
\<close>

theorem load_sessions_errors:
  "(fs path = None \<longrightarrow> load_sessions loads fs path n = Inl OSError)
   \<and> (fs path = Some (map Line f) \<and> (\<exists>l \<in> set (take (nat n) f). loads l = None)
        \<longrightarrow> load_sessions loads fs path n = Inl JSONDecodeError)
   \<and> (fs path = Some r
        \<and> (\<exists>x \<in> set (take (nat n) r). x = DecodeFails \<or> (\<exists>l. x = Line l \<and> loads l = None))
        \<longrightarrow> (\<exists>e. load_sessions loads fs path n = Inl e))"
proof (intro conjI impI)
  assume "fs path = None"
  then show "load_sessions loads fs path n = Inl OSError"
    by (simp add: load_sessions_def)
next
  assume "fs path = Some (map Line f) \<and> (\<exists>l \<in> set (take (nat n) f). loads l = None)"
  then show "load_sessions loads fs path n = Inl JSONDecodeError"
    by (auto simp: load_sessions_text)
next
  assume a: "fs path = Some r
    \<and> (\<exists>x \<in> set (take (nat n) r). x = DecodeFails \<or> (\<exists>l. x = Line l \<and> loads l = None))"
  then have "\<exists>e. load_loop loads n 0 r [] = Inl e"
    using load_loop_abort [of n 0 r loads "[]"] by simp
  with a show "\<exists>e. load_sessions loads fs path n = Inl e"
    by (simp add: load_sessions_def)
qed

theorem load_sessions_errors_witness:
  "[''train.jsonl'' \<mapsto> map Line [''1'', ''x'', ''2'']] ''missing.jsonl'' = None
   \<and> load_sessions [''1'' \<mapsto> (1::int), ''2'' \<mapsto> 2]
         [''train.jsonl'' \<mapsto> map Line [''1'', ''x'', ''2'']] ''missing.jsonl'' 2 = Inl OSError
   \<and> [''train.jsonl'' \<mapsto> map Line [''1'', ''x'', ''2'']] ''train.jsonl''
       = Some (map Line [''1'', ''x'', ''2''])
   \<and> take (nat 2) [''1'', ''x'', ''2''] = [''1'', ''x'']
   \<and> [''1'' \<mapsto> (1::int), ''2'' \<mapsto> 2] ''x'' = None
   \<and> load_sessions [''1'' \<mapsto> (1::int), ''2'' \<mapsto> 2]
         [''train.jsonl'' \<mapsto> map Line [''1'', ''x'', ''2'']] ''train.jsonl'' 2 = Inl JSONDecodeError
   \<and> [''train.jsonl'' \<mapsto> [Line ''1'', DecodeFails]] ''train.jsonl'' = Some [Line ''1'', DecodeFails]
   \<and> take (nat 2) [Line ''1'', DecodeFails] = [Line ''1'', DecodeFails]
   \<and> (\<exists>e. load_sessions [''1'' \<mapsto> (1::int), ''2'' \<mapsto> 2]
         [''train.jsonl'' \<mapsto> [Line ''1'', DecodeFails]] ''train.jsonl'' 2 = Inl e)"
proof -
  have a: "[''train.jsonl'' \<mapsto> map Line [''1'', ''x'', ''2'']] ''missing.jsonl'' = None" by simp
  have b: "[''train.jsonl'' \<mapsto> map Line [''1'', ''x'', ''2'']] ''train.jsonl''
       = Some (map Line [''1'', ''x'', ''2''])"
    by simp
  have d: "take (nat 2) [''1'', ''x'', ''2''] = [''1'', ''x'']"
    by (simp add: numeral_2_eq_2)
  have e: "[''1'' \<mapsto> (1::int), ''2'' \<mapsto> 2] ''x'' = None" by simp
  have c: "\<exists>l \<in> set (take (nat 2) [''1'', ''x'', ''2'']). [''1'' \<mapsto> (1::int), ''2'' \<mapsto> 2] l = None"
    unfolding d by simp
  have f: "[''train.jsonl'' \<mapsto> [Line ''1'', DecodeFails]] ''train.jsonl'' = Some [Line ''1'', DecodeFails]"
    by simp
  have g: "take (nat 2) [Line ''1'', DecodeFails] = [Line ''1'', DecodeFails]"
    by (simp add: numeral_2_eq_2)
  have h: "\<exists>x \<in> set (take (nat 2) [Line ''1'', DecodeFails]).
      x = DecodeFails \<or> (\<exists>l. x = Line l \<and> [''1'' \<mapsto> (1::int), ''2'' \<mapsto> 2] l = None)"
    unfolding g by simp
  from a b c d e f g h
    load_sessions_errors [of "[''train.jsonl'' \<mapsto> map Line [''1'', ''x'', ''2'']]" "''missing.jsonl''"
      "[''1'' \<mapsto> (1::int), ''2'' \<mapsto> 2]" 2 "[]" "[]"]
    load_sessions_errors [of "[''train.jsonl'' \<mapsto> map Line [''1'', ''x'', ''2'']]" "''train.jsonl''"
      "[''1'' \<mapsto> (1::int), ''2'' \<mapsto> 2]" 2 "[''1'', ''x'', ''2'']" "[]"]
    load_sessions_errors [of "[''train.jsonl'' \<mapsto> [Line ''1'', DecodeFails]]" "''train.jsonl''"
      "[''1'' \<mapsto> (1::int), ''2'' \<mapsto> 2]" 2 "[]" "[Line ''1'', DecodeFails]"]
  show ?thesis by blast
qed

text \<open>
  C10, as stated, fails on a file that opens but does not decode: with \<open>n = 0\<close> the loop
  still reads the first line before it tests \<open>i >= n\<close>, and with \<open>n = 1\<close> it reads the
  second line after parsing the first, so undecodable content there raises
  \<open>UnicodeDecodeError\<close>.
\<close>

theorem load_sessions_undecodable:
  "load_sessions (Map.empty :: string \<rightharpoonup> int) [''train.jsonl'' \<mapsto> [DecodeFails]] ''train.jsonl'' 0
     = Inl UnicodeDecodeError
   \<and> load_sessions [''1'' \<mapsto> (1::int)] [''train.jsonl'' \<mapsto> [Line ''1'', DecodeFails]] ''train.jsonl'' 1
     = Inl UnicodeDecodeError"
  by (simp add: load_sessions_def)

text \<open>
  C10, amended. When the read of the first line does not fail to decode,
  \<open>load_sessions path 0\<close> returns the empty sequence for every parser, also one that
  rejects every line. More generally, when the first \<open>n\<close> lines parse and the read of the
  line after them does not fail to decode, the parses of these lines are returned whatever
  follows, and the result depends only on the first \<open>n + 1\<close> reads of the file and on what
  the parser does on the first \<open>n\<close> lines: no line beyond the first \<open>n\<close> is parsed.
\<close>

theorem load_sessions_beyond_prefix:
  "(fs path = Some f \<and> take 1 f \<noteq> [DecodeFails] \<longrightarrow> load_sessions loads fs path 0 = Inr [])
   \<and> (fs path = Some (map Line pre @ rest) \<and> int (length pre) = n
        \<and> (\<forall>l \<in> set pre. loads l = Some (g l)) \<and> take 1 rest \<noteq> [DecodeFails]
        \<longrightarrow> load_sessions loads fs path n = Inr (map g pre))
   \<and> (fs path = Some f \<and> fs' path = Some f' \<and> take (nat n + 1) f = take (nat n + 1) f'
        \<and> (\<forall>l. Line l \<in> set (take (nat n) f) \<longrightarrow> loads l = loads' l)
        \<longrightarrow> load_sessions loads fs path n = load_sessions loads' fs' path n)"
proof (intro conjI impI)
  assume "fs path = Some f \<and> take 1 f \<noteq> [DecodeFails]"
  then show "load_sessions loads fs path 0 = Inr []"
    by (simp add: load_sessions_def load_loop_stop)
next
  assume a: "fs path = Some (map Line pre @ rest) \<and> int (length pre) = n
    \<and> (\<forall>l \<in> set pre. loads l = Some (g l)) \<and> take 1 rest \<noteq> [DecodeFails]"
  then have "load_loop loads n 0 (map Line pre @ rest) [] = Inr ([] @ map g pre)"
    by (intro load_loop_prefix) simp_all
  with a show "load_sessions loads fs path n = Inr (map g pre)"
    by (simp add: load_sessions_def)
next
  assume a: "fs path = Some f \<and> fs' path = Some f' \<and> take (nat n + 1) f = take (nat n + 1) f'
        \<and> (\<forall>l. Line l \<in> set (take (nat n) f) \<longrightarrow> loads l = loads' l)"
  then have "load_loop loads n 0 f [] = load_loop loads' n 0 f' []"
    by (intro load_loop_cong) simp_all
  with a show "load_sessions loads fs path n = load_sessions loads' fs' path n"
    by (simp add: load_sessions_def)
qed

theorem load_sessions_beyond_prefix_witness:
  "[''train.jsonl'' \<mapsto> [Line ''x'', Line ''y'']] ''train.jsonl'' = Some [Line ''x'', Line ''y'']
   \<and> take 1 [Line ''x'', Line ''y''] \<noteq> [DecodeFails]
   \<and> load_sessions (Map.empty :: string \<rightharpoonup> int) [''train.jsonl'' \<mapsto> [Line ''x'', Line ''y'']]
         ''train.jsonl'' 0
       = Inr []
   \<and> [''train.jsonl'' \<mapsto> map Line [''1''] @ [Line ''x'', DecodeFails]] ''train.jsonl''
       = Some (map Line [''1''] @ [Line ''x'', DecodeFails])
   \<and> int (length [''1'']) = 1
   \<and> [''1'' \<mapsto> (1::int)] ''1'' = Some (int (length ''1''))
   \<and> take 1 [Line ''x'', DecodeFails] \<noteq> [DecodeFails]
   \<and> load_sessions [''1'' \<mapsto> (1::int)] [''train.jsonl'' \<mapsto> map Line [''1''] @ [Line ''x'', DecodeFails]]
         ''train.jsonl'' 1
       = Inr [1]
   \<and> take (nat 1 + 1) [Line ''1'', Line ''2'', Line ''x''] = take (nat 1 + 1) [Line ''1'', Line ''2'', DecodeFails]
   \<and> [''1'' \<mapsto> (1::int)] ''1'' = [''1'' \<mapsto> 1, ''2'' \<mapsto> 2] ''1''
   \<and> load_sessions [''1'' \<mapsto> (1::int)] [''train.jsonl'' \<mapsto> [Line ''1'', Line ''2'', Line ''x'']]
         ''train.jsonl'' 1
       = load_sessions [''1'' \<mapsto> 1, ''2'' \<mapsto> 2] [''train.jsonl'' \<mapsto> [Line ''1'', Line ''2'', DecodeFails]]
           ''train.jsonl'' 1"
proof -
  have a: "[''train.jsonl'' \<mapsto> [Line ''x'', Line ''y'']] ''train.jsonl'' = Some [Line ''x'', Line ''y'']"
    by simp
  have a': "take 1 [Line ''x'', Line ''y''] \<noteq> [DecodeFails]" by simp
  have b: "[''train.jsonl'' \<mapsto> map Line [''1''] @ [Line ''x'', DecodeFails]] ''train.jsonl''
       = Some (map Line [''1''] @ [Line ''x'', DecodeFails])"
    by simp
  have c: "int (length [''1'']) = 1" by simp
  have d: "\<forall>l \<in> set [''1'']. [''1'' \<mapsto> (1::int)] l = Some (int (length l))" by simp
  have d': "take 1 [Line ''x'', DecodeFails] \<noteq> [DecodeFails]" by simp
  have e: "map (\<lambda>l. int (length l)) [''1''] = [1]" by simp
  have f: "[''train.jsonl'' \<mapsto> [Line ''1'', Line ''2'', Line ''x'']] ''train.jsonl''
      = Some [Line ''1'', Line ''2'', Line ''x'']" by simp
  have g: "[''train.jsonl'' \<mapsto> [Line ''1'', Line ''2'', DecodeFails]] ''train.jsonl''
      = Some [Line ''1'', Line ''2'', DecodeFails]" by simp
  have h: "take (nat 1 + 1) [Line ''1'', Line ''2'', Line ''x'']
      = take (nat 1 + 1) [Line ''1'', Line ''2'', DecodeFails]" by simp
  have i: "\<forall>l. Line l \<in> set (take (nat 1) [Line ''1'', Line ''2'', Line ''x''])
      \<longrightarrow> [''1'' \<mapsto> (1::int)] l = [''1'' \<mapsto> 1, ''2'' \<mapsto> 2] l"
    by simp
  have j: "load_sessions [''1'' \<mapsto> (1::int)] [''train.jsonl'' \<mapsto> [Line ''1'', Line ''2'', Line ''x'']]
         ''train.jsonl'' 1
       = load_sessions [''1'' \<mapsto> 1, ''2'' \<mapsto> 2] [''train.jsonl'' \<mapsto> [Line ''1'', Line ''2'', DecodeFails]]
           ''train.jsonl'' 1"
    using f g h i
      load_sessions_beyond_prefix [of "[''train.jsonl'' \<mapsto> [Line ''1'', Line ''2'', Line ''x'']]"
        "''train.jsonl''" "[Line ''1'', Line ''2'', Line ''x'']" "[''1'' \<mapsto> (1::int)]" "[]" "[]" 1
        "\<lambda>l. 0" "[''train.jsonl'' \<mapsto> [Line ''1'', Line ''2'', DecodeFails]]"
        "[Line ''1'', Line ''2'', DecodeFails]" "[''1'' \<mapsto> 1, ''2'' \<mapsto> 2]"]
    by blast
  have k: "[''1'' \<mapsto> (1::int)] ''1'' = Some (int (length ''1''))" by simp
  have l: "[''1'' \<mapsto> (1::int)] ''1'' = [''1'' \<mapsto> 1, ''2'' \<mapsto> 2] ''1''" by simp
  have m: "load_sessions (Map.empty :: string \<rightharpoonup> int) [''train.jsonl'' \<mapsto> [Line ''x'', Line ''y'']]
         ''train.jsonl'' 0 = Inr []"
    using a a'
      load_sessions_beyond_prefix [of "[''train.jsonl'' \<mapsto> [Line ''x'', Line ''y'']]" "''train.jsonl''"
        "[Line ''x'', Line ''y'']" "Map.empty :: string \<rightharpoonup> int"]
    by blast
  have n: "load_sessions [''1'' \<mapsto> (1::int)] [''train.jsonl'' \<mapsto> map Line [''1''] @ [Line ''x'', DecodeFails]]
         ''train.jsonl'' 1 = Inr (map (\<lambda>l. int (length l)) [''1''])"
    using b c d d'
      load_sessions_beyond_prefix [of "[''train.jsonl'' \<mapsto> map Line [''1''] @ [Line ''x'', DecodeFails]]"
        "''train.jsonl''" "[]" "[''1'' \<mapsto> (1::int)]" "[''1'']" "[Line ''x'', DecodeFails]" 1
        "\<lambda>l. int (length l)"]
    by blast
  from a a' b c d' h j k l m n [unfolded e] show ?thesis by blast
qed

section \<open>The event flattener\<close>

text \<open>
  C3, as stated, fails on the empty list of sessions: the frame built from no rows has no
  columns, so the columns are not \<open>session, aid, ts, type\<close> there.
\<close>

theorem flatten_events_no_columns:
  "df_columns (flatten_events []) \<noteq> [''session'', ''aid'', ''ts'', ''type'']"
  by (simp add: flatten_events_def DataFrame_def)

text \<open>
  C3, amended. For every list of session records, the rows of \<open>flatten_events\<close> are the
  events of the first session in input order, then those of the second, and so on, each row
  carrying its session's identifier and its event's aid, ts and type unchanged; their number
  is the sum of the lengths of the event lists. The columns are \<open>session, aid, ts, type\<close>
  when some session has an event, and the table has no columns when none has.
\<close>

theorem flatten_events_table:
  "df_rows (flatten_events sessions) =
     concat (map (\<lambda>s. map (\<lambda>e. \<lparr>row_session = session s, row_aid = aid e,
                                  row_ts = ts e, row_type = type e\<rparr>) (events s)) sessions)
   \<and> length (df_rows (flatten_events sessions)) = sum_list (map (\<lambda>s. length (events s)) sessions)
   \<and> df_columns (flatten_events sessions) =
       (if \<forall>s \<in> set sessions. events s = [] then [] else [''session'', ''aid'', ''ts'', ''type''])"
proof -
  let ?rs = "concat (map (\<lambda>s. map (\<lambda>e. \<lparr>row_session = session s, row_aid = aid e,
                                  row_ts = ts e, row_type = type e\<rparr>) (events s)) sessions)"
  have r: "df_rows (flatten_events sessions) = ?rs"
    by (simp add: flatten_events_def df_rows_DataFrame flatten_loop_eq)
  have l: "length ?rs = sum_list (map (\<lambda>s. length (events s)) sessions)"
    by (simp add: length_concat comp_def)
  have e: "?rs = [] \<longleftrightarrow> (\<forall>s \<in> set sessions. events s = [])"
    by auto
  have c: "df_columns (flatten_events sessions) =
       (if ?rs = [] then [] else [''session'', ''aid'', ''ts'', ''type''])"
    unfolding flatten_events_def flatten_loop_eq DataFrame_def by simp
  show ?thesis using r l e c by simp
qed

theorem flatten_events_table_witness:
  "df_rows (flatten_events scenario_sessions) =
     [\<lparr>row_session = 1, row_aid = 10, row_ts = 100, row_type = Some ''clicks''\<rparr>,
      \<lparr>row_session = 1, row_aid = 11, row_ts = 101, row_type = Some ''orders''\<rparr>,
      \<lparr>row_session = 2, row_aid = 12, row_ts = 102, row_type = Some ''carts''\<rparr>]
   \<and> length (df_rows (flatten_events scenario_sessions)) = 3
   \<and> df_columns (flatten_events scenario_sessions) = [''session'', ''aid'', ''ts'', ''type'']"
  using flatten_events_table [of scenario_sessions]
  by (simp add: scenario_sessions_def)

section \<open>The session aggregator\<close>

text \<open>
  C2. For an event table with at least one row, \<open>build_session_features\<close> returns a table
  whose index holds exactly the session identifiers of the input, each of them once, in
  ascending order, whatever the order of the input rows.
\<close>

theorem features_index:
  assumes "df_rows df \<noteq> []"
  shows "\<exists>t. build_session_features df = Inr t
           \<and> set (map fst (rows t)) = set (map row_session (df_rows df))
           \<and> distinct (map fst (rows t))
           \<and> sorted (map fst (rows t))"
proof -
  let ?t = "set_converted (agg (groupby_session df))"
  have b: "build_session_features df = Inr ?t"
    using assms by (simp add: bsf_Inr_iff)
  have i: "map fst (rows ?t) = sort (remdups (map row_session (df_rows df)))"
    by (rule index_features)
  have "set (map fst (rows ?t)) = set (map row_session (df_rows df))"
    unfolding i by simp
  moreover have "distinct (map fst (rows ?t))"
    unfolding i by simp
  moreover have "sorted (map fst (rows ?t))"
    unfolding i by simp
  ultimately show ?thesis using b by blast
qed

theorem features_index_witness:
  "df_rows (Frame [\<lparr>row_session = 7, row_aid = 1, row_ts = 5, row_type = Some ''carts''\<rparr>,
                   \<lparr>row_session = 3, row_aid = 2, row_ts = 6, row_type = Some ''clicks''\<rparr>,
                   \<lparr>row_session = 7, row_aid = 1, row_ts = 8, row_type = Some ''orders''\<rparr>]) \<noteq> []
   \<and> (\<exists>t. build_session_features
              (Frame [\<lparr>row_session = 7, row_aid = 1, row_ts = 5, row_type = Some ''carts''\<rparr>,
                      \<lparr>row_session = 3, row_aid = 2, row_ts = 6, row_type = Some ''clicks''\<rparr>,
                      \<lparr>row_session = 7, row_aid = 1, row_ts = 8, row_type = Some ''orders''\<rparr>]) = Inr t
          \<and> set (map fst (rows t)) = {3, 7}
          \<and> distinct (map fst (rows t))
          \<and> sorted (map fst (rows t)))"
  using features_index [of "Frame [\<lparr>row_session = 7, row_aid = 1, row_ts = 5, row_type = Some ''carts''\<rparr>,
                      \<lparr>row_session = 3, row_aid = 2, row_ts = 6, row_type = Some ''clicks''\<rparr>,
                      \<lparr>row_session = 7, row_aid = 1, row_ts = 8, row_type = Some ''orders''\<rparr>]"]
  by (simp add: insert_commute)

text \<open>
  C4. \<open>build_session_features\<close> raises the empty-input \<open>ValueError\<close> exactly when the
  event table has no rows; it returns a feature table exactly when there is at least one row,
  so a table without rows never yields an empty feature table.
\<close>

theorem empty_input_error:
  "(build_session_features df = Inl (ValueError empty_msg) \<longleftrightarrow> df_rows df = [])
   \<and> ((\<exists>t. build_session_features df = Inr t) \<longleftrightarrow> df_rows df \<noteq> [])"
  by (simp add: bsf_Inr_iff bsf_Inl_iff)

theorem empty_input_error_witness:
  "build_session_features NoColumns = Inl (ValueError empty_msg)
   \<and> build_session_features (Frame []) = Inl (ValueError empty_msg)
   \<and> df_rows (Frame [\<lparr>row_session = 4, row_aid = 1, row_ts = 9, row_type = Some ''clicks''\<rparr>]) \<noteq> []
   \<and> (\<exists>t. build_session_features
             (Frame [\<lparr>row_session = 4, row_aid = 1, row_ts = 9, row_type = Some ''clicks''\<rparr>]) = Inr t)
   \<and> build_session_features
             (Frame [\<lparr>row_session = 4, row_aid = 1, row_ts = 9, row_type = Some ''clicks''\<rparr>])
       \<noteq> Inl (ValueError empty_msg)"
  using empty_input_error [of NoColumns] empty_input_error [of "Frame []"]
    empty_input_error [of "Frame [\<lparr>row_session = 4, row_aid = 1, row_ts = 9, row_type = Some ''clicks''\<rparr>]"]
  by simp



text \<open>
  C7. In every row of a built feature table, \<open>converted\<close> holds exactly when
  \<open>order_cnt\<close> is positive, that is, exactly when the session has an event of type
  \<open>orders\<close>.
\<close>

theorem converted_iff:
  assumes "build_session_features df = Inr t" and "(k, r) \<in> set (rows t)"
  shows "(converted r \<longleftrightarrow> order_cnt r > 0)
    \<and> (converted r \<longleftrightarrow>
         (\<exists>e \<in> set (df_rows df). row_session e = k \<and> row_type e = Some ''orders''))"
proof -
  from assms have m: "(k, r) \<in> set (rows (set_converted (agg (groupby_session df))))"
    by (simp add: bsf_Inr_iff)
  have c: "converted r \<longleftrightarrow> order_cnt r > 0"
    by (rule row_features(6) [OF m])
  have "order_cnt r > 0 \<longleftrightarrow>
      (\<exists>e \<in> set (df_rows df). row_session e = k \<and> row_type e = Some ''orders'')"
    unfolding row_features(5) [OF m] by (simp add: filter_empty_conv)
  with c show ?thesis by simp
qed

theorem converted_iff_witness:
  "build_session_features
       (Frame [\<lparr>row_session = 8, row_aid = 3, row_ts = 20, row_type = Some ''carts''\<rparr>,
               \<lparr>row_session = 6, row_aid = 4, row_ts = 21, row_type = Some ''orders''\<rparr>])
     = Inr \<lparr>columns = [''total_events'', ''click_cnt'', ''cart_cnt'', ''order_cnt'', ''converted''],
              rows = [(6, \<lparr>total_events = 1, click_cnt = 0, cart_cnt = 0, order_cnt = 1, converted = True\<rparr>),
                      (8, \<lparr>total_events = 1, click_cnt = 0, cart_cnt = 1, order_cnt = 0, converted = False\<rparr>)]\<rparr>
   \<and> (6, \<lparr>total_events = 1, click_cnt = 0, cart_cnt = 0, order_cnt = 1, converted = True\<rparr>)
       \<in> set (rows \<lparr>columns = [''total_events'', ''click_cnt'', ''cart_cnt'', ''order_cnt'', ''converted''],
              rows = [(6, \<lparr>total_events = 1, click_cnt = 0, cart_cnt = 0, order_cnt = 1, converted = True\<rparr>),
                      (8, \<lparr>total_events = 1, click_cnt = 0, cart_cnt = 1, order_cnt = 0, converted = False\<rparr>)]\<rparr>)
   \<and> converted \<lparr>total_events = 1, click_cnt = 0, cart_cnt = 0, order_cnt = 1, converted = True\<rparr>
   \<and> order_cnt \<lparr>total_events = 1, click_cnt = 0, cart_cnt = 0, order_cnt = 1, converted = True\<rparr> > 0"
proof -
  have a: "build_session_features
       (Frame [\<lparr>row_session = 8, row_aid = 3, row_ts = 20, row_type = Some ''carts''\<rparr>,
               \<lparr>row_session = 6, row_aid = 4, row_ts = 21, row_type = Some ''orders''\<rparr>])
     = Inr \<lparr>columns = [''total_events'', ''click_cnt'', ''cart_cnt'', ''order_cnt'', ''converted''],
              rows = [(6, \<lparr>total_events = 1, click_cnt = 0, cart_cnt = 0, order_cnt = 1, converted = True\<rparr>),
                      (8, \<lparr>total_events = 1, click_cnt = 0, cart_cnt = 1, order_cnt = 0, converted = False\<rparr>)]\<rparr>"
    by (simp add: build_session_features_def df_empty_def groupby_session_def agg_def
        set_converted_def count_agg_def eq_sum_def)
  have b: "(6, \<lparr>total_events = 1, click_cnt = 0, cart_cnt = 0, order_cnt = 1, converted = True\<rparr>)
       \<in> set (rows \<lparr>columns = [''total_events'', ''click_cnt'', ''cart_cnt'', ''order_cnt'', ''converted''],
              rows = [(6, \<lparr>total_events = 1, click_cnt = 0, cart_cnt = 0, order_cnt = 1, converted = True\<rparr>),
                      (8, \<lparr>total_events = 1, click_cnt = 0, cart_cnt = 1, order_cnt = 0, converted = False\<rparr>)]\<rparr>)"
    by simp
  from converted_iff [OF a b] a b show ?thesis by simp
qed

text \<open>
  C9, as stated, fails on a session whose only event has the type \<open>null\<close>: the row of
  the session is there and its \<open>total_events\<close> is 0, since \<open>count\<close> skips the missing
  cell.
\<close>

theorem total_events_zero:
  "build_session_features
       (flatten_events [\<lparr>session = 1, events = [\<lparr>aid = 10, ts = 100, type = None\<rparr>]\<rparr>])
     = Inr \<lparr>columns = [''total_events'', ''click_cnt'', ''cart_cnt'', ''order_cnt'', ''converted''],
            rows = [(1, \<lparr>total_events = 0, click_cnt = 0, cart_cnt = 0, order_cnt = 0, converted = False\<rparr>)]\<rparr>"
  by (simp add: flatten_events_def DataFrame_def build_session_features_def df_empty_def groupby_session_def agg_def
        set_converted_def count_agg_def eq_sum_def)

text \<open>
  C9, amended. A built feature table has the columns \<open>total_events, click_cnt, cart_cnt,
  order_cnt, converted\<close>. Every session of a row has at least one event in the event table,
  and \<open>total_events\<close> is the number of the session's events whose type is not null: it is
  at least 1 exactly when the session has an event whose type is not null, so in every row
  when no type is null.
\<close>

theorem total_events_positive:
  assumes "build_session_features df = Inr t"
  shows "columns t = [''total_events'', ''click_cnt'', ''cart_cnt'', ''order_cnt'', ''converted'']
    \<and> (\<forall>(k, r) \<in> set (rows t).
          (\<exists>e \<in> set (df_rows df). row_session e = k)
          \<and> total_events r
              = length (filter (\<lambda>e. row_session e = k \<and> row_type e \<noteq> None) (df_rows df))
          \<and> (total_events r \<ge> 1 \<longleftrightarrow>
               (\<exists>e \<in> set (df_rows df). row_session e = k \<and> row_type e \<noteq> None)))
    \<and> ((\<forall>e \<in> set (df_rows df). row_type e \<noteq> None)
         \<longrightarrow> (\<forall>(k, r) \<in> set (rows t). total_events r \<ge> 1))"
proof -
  from assms have t: "t = set_converted (agg (groupby_session df))"
    by (simp add: bsf_Inr_iff)
  have c: "columns t = [''total_events'', ''click_cnt'', ''cart_cnt'', ''order_cnt'', ''converted'']"
    unfolding t by (simp add: set_converted_def agg_def)
  have row: "(\<exists>e \<in> set (df_rows df). row_session e = k)
      \<and> total_events r
          = length (filter (\<lambda>e. row_session e = k \<and> row_type e \<noteq> None) (df_rows df))
      \<and> (total_events r \<ge> 1 \<longleftrightarrow>
           (\<exists>e \<in> set (df_rows df). row_session e = k \<and> row_type e \<noteq> None))"
    if m: "(k, r) \<in> set (rows t)" for k r
  proof -
    from m have m': "(k, r) \<in> set (rows (set_converted (agg (groupby_session df))))"
      unfolding t .
    have e: "\<exists>e \<in> set (df_rows df). row_session e = k"
      using row_features(1) [OF m'] by auto
    have n: "total_events r
        = length (filter (\<lambda>e. row_session e = k \<and> row_type e \<noteq> None) (df_rows df))"
      by (rule row_features(2) [OF m'])
    have "total_events r \<ge> 1 \<longleftrightarrow>
        filter (\<lambda>e. row_session e = k \<and> row_type e \<noteq> None) (df_rows df) \<noteq> []"
      unfolding n by (simp add: Suc_le_eq)
    also have "\<dots> \<longleftrightarrow> (\<exists>e \<in> set (df_rows df). row_session e = k \<and> row_type e \<noteq> None)"
      by (simp add: filter_empty_conv)
    finally show ?thesis using e n by blast
  qed
  have all: "total_events r \<ge> 1"
    if "\<forall>e \<in> set (df_rows df). row_type e \<noteq> None" and m: "(k, r) \<in> set (rows t)" for k r
    using row [OF m] that(1) by blast
  from c row all show ?thesis by blast
qed

theorem total_events_positive_witness:
  "build_session_features
       (Frame [\<lparr>row_session = 9, row_aid = 7, row_ts = 30, row_type = Some ''clicks''\<rparr>,
               \<lparr>row_session = 9, row_aid = 7, row_ts = 31, row_type = None\<rparr>])
     = Inr \<lparr>columns = [''total_events'', ''click_cnt'', ''cart_cnt'', ''order_cnt'', ''converted''],
              rows = [(9, \<lparr>total_events = 1, click_cnt = 1, cart_cnt = 0, order_cnt = 0, converted = False\<rparr>)]\<rparr>
   \<and> columns \<lparr>columns = [''total_events'', ''click_cnt'', ''cart_cnt'', ''order_cnt'', ''converted''],
              rows = [(9, \<lparr>total_events = 1, click_cnt = 1, cart_cnt = 0, order_cnt = 0, converted = False\<rparr>)]\<rparr>
       = [''total_events'', ''click_cnt'', ''cart_cnt'', ''order_cnt'', ''converted'']
   \<and> total_events \<lparr>total_events = 1, click_cnt = 1, cart_cnt = 0, order_cnt = 0, converted = False\<rparr>
       = length (filter (\<lambda>e. row_session e = 9 \<and> row_type e \<noteq> None)
           (df_rows (Frame [\<lparr>row_session = 9, row_aid = 7, row_ts = 30, row_type = Some ''clicks''\<rparr>,
               \<lparr>row_session = 9, row_aid = 7, row_ts = 31, row_type = None\<rparr>])))
   \<and> total_events \<lparr>total_events = 1, click_cnt = 1, cart_cnt = 0, order_cnt = 0, converted = False\<rparr>
       \<ge> 1"
proof -
  have a: "build_session_features
       (Frame [\<lparr>row_session = 9, row_aid = 7, row_ts = 30, row_type = Some ''clicks''\<rparr>,
               \<lparr>row_session = 9, row_aid = 7, row_ts = 31, row_type = None\<rparr>])
     = Inr \<lparr>columns = [''total_events'', ''click_cnt'', ''cart_cnt'', ''order_cnt'', ''converted''],
              rows = [(9, \<lparr>total_events = 1, click_cnt = 1, cart_cnt = 0, order_cnt = 0, converted = False\<rparr>)]\<rparr>"
    by (simp add: build_session_features_def df_empty_def groupby_session_def agg_def
        set_converted_def count_agg_def eq_sum_def)
  from total_events_positive [OF a] a show ?thesis by simp
qed

end
